theory Spec2Isabelle
  imports Complex_Main "HOL-Library.Sublist" "HOL-Library.AList"
begin

section \<open>Python text\<close>

text \<open>
  A Python \<open>str\<close> is modelled by \<open>string\<close>: one \<open>char\<close> per code point, so the
  model covers text whose code points are below 256. On that range the functions
  below are Python's own: \<open>str.isspace\<close> holds of the code points 9 to 13, 28 to 32,
  133 and 160, and \<open>str.lower\<close> moves \<open>A\<close> to \<open>Z\<close> and the Latin-1 capitals
  (192 to 222 without the multiplication sign 215) up by 32.
\<close>

definition isspace :: "char \<Rightarrow> bool" where
  "isspace c =
     (let n = (of_char c :: nat)
      in (9 \<le> n \<and> n \<le> 13) \<or> (28 \<le> n \<and> n \<le> 32) \<or> n = 133 \<or> n = 160)"

definition strip :: "string \<Rightarrow> string" where
  "strip s = rev (dropWhile isspace (rev (dropWhile isspace s)))"

definition isupper :: "char \<Rightarrow> bool" where
  "isupper c =
     (let n = (of_char c :: nat)
      in (65 \<le> n \<and> n \<le> 90) \<or> (192 \<le> n \<and> n \<le> 222 \<and> n \<noteq> 215))"

definition lower_char :: "char \<Rightarrow> char" where
  "lower_char c = (if isupper c then char_of (of_char c + (32::nat)) else c)"

definition lower :: "string \<Rightarrow> string" where
  "lower s = map lower_char s"

definition endswith :: "string \<Rightarrow> string \<Rightarrow> bool" where
  "endswith s suf = suffix suf s"

section \<open>Schema inference (SchemaParsingAgent.py)\<close>

datatype semantic_type = Numerical | Datetime | Categorical | Unknown

datatype role = Identifier | Metric | Dimension

text \<open>
  The three dtype tests of \<open>pandas.api.types\<close> and \<open>str(dtype)\<close> are library
  functions on the column dtype \<open>'d\<close>; \<open>infer_field_type\<close> asks them in the source's
  order.
\<close>

record 'd pandas_types =
  is_numeric_dtype :: "'d \<Rightarrow> bool"
  is_datetime64_any_dtype :: "'d \<Rightarrow> bool"
  is_string_dtype :: "'d \<Rightarrow> bool"
  dtype_str :: "'d \<Rightarrow> string"

definition infer_field_type :: "'d pandas_types \<Rightarrow> 'd \<Rightarrow> semantic_type" where
  "infer_field_type pd dt =
     (if is_numeric_dtype pd dt then Numerical
      else if is_datetime64_any_dtype pd dt then Datetime
      else if is_string_dtype pd dt then Categorical
      else Unknown)"

text \<open>
  A field descriptor is the dict \<open>parse_schema\<close> appends; the key \<open>role\<close> is absent
  (\<open>None\<close>) until \<open>annotate_schema\<close> sets it.
\<close>

record field =
  table_name :: string
  field_name :: string
  dtype :: string
  semantic_type :: semantic_type
  role :: "role option"

text \<open>\<open>parse_schema\<close>: one descriptor per column of the loaded table, in column order.\<close>

definition parse_schema :: "'d pandas_types \<Rightarrow> string \<Rightarrow> (string \<times> 'd) list \<Rightarrow> field list" where
  "parse_schema pd tname cols =
     map (\<lambda>(col, dt).
            \<lparr>table_name = tname, field_name = col, dtype = dtype_str pd dt,
             semantic_type = infer_field_type pd dt, role = None\<rparr>) cols"

text \<open>The body of the loop of \<open>annotate_schema\<close>, and the loop.\<close>

definition annotate_field :: "field \<Rightarrow> field" where
  "annotate_field f =
     (let name = field_name f
      in if lower name = ''id'' \<or> endswith (lower name) ''_id''
         then f\<lparr>role := Some Identifier\<rparr>
         else if semantic_type f = Numerical
         then f\<lparr>role := Some Metric\<rparr>
         else f\<lparr>role := Some Dimension\<rparr>)"

definition annotate_schema :: "field list \<Rightarrow> field list" where
  "annotate_schema schema = map annotate_field schema"

text \<open>\<open>schema_api\<close>: the field names, and the names by role.\<close>

definition get_fields_by_role :: "field list \<Rightarrow> role \<Rightarrow> string list" where
  "get_fields_by_role schema r = map field_name (filter (\<lambda>f. role f = Some r) schema)"

record schema_api =
  all_fields :: "string list"
  metrics :: "string list"
  dimensions :: "string list"
  identifiers :: "string list"

definition schema_api :: "field list \<Rightarrow> schema_api" where
  "schema_api schema =
     \<lparr>all_fields = map field_name schema,
      metrics = get_fields_by_role schema Metric,
      dimensions = get_fields_by_role schema Dimension,
      identifiers = get_fields_by_role schema Identifier\<rparr>"

section \<open>Exceptions, printed output and the outside world\<close>

text \<open>
  A raise is a value: a function that can raise returns \<open>exn + 'a\<close>, with \<open>Inl\<close> the
  exception. The type \<open>exn\<close> holds the instances of Python's \<open>Exception\<close>, the ones an
  \<open>except Exception\<close> clause catches, each with its message \<open>str(e)\<close>:
  \<open>ValueError\<close> and \<open>json.JSONDecodeError\<close>, which the source names, and
  \<open>OtherException\<close> for every other class.
\<close>

datatype exn = ValueError string | JSONDecodeError string | OtherException string

fun exn_str :: "exn \<Rightarrow> string" where
  "exn_str (ValueError m) = m"
| "exn_str (JSONDecodeError m) = m"
| "exn_str (OtherException m) = m"

text \<open>
  The program talks to a generative model, a relational engine and the interpreter that
  executes generated code. Their state is the \<open>world\<close>; each call takes the world and
  returns the next one with its answer, so an answer may depend on everything that
  happened before. \<open>stdout\<close> holds the texts printed so far, one per \<open>print\<close>, and
  \<open>calls\<close> records every call that left the program, in order.
\<close>

datatype call = ModelCall string | SqlCall string | ExecCall string

record 'w state =
  world :: 'w
  stdout :: "string list"
  calls :: "call list"

definition print :: "string \<Rightarrow> 'w state \<Rightarrow> 'w state" where
  "print line st = st\<lparr>stdout := stdout st @ [line]\<rparr>"

text \<open>\<open>d.get(key, default)\<close> on a key that may be absent.\<close>

definition dict_get :: "'a option \<Rightarrow> 'a \<Rightarrow> 'a" where
  "dict_get v d = (case v of None \<Rightarrow> d | Some x \<Rightarrow> x)"

text \<open>\<open>sep.join(xs)\<close>.\<close>

fun join :: "string \<Rightarrow> string list \<Rightarrow> string" where
  "join sep [] = []"
| "join sep [x] = x"
| "join sep (x # y # ys) = x @ sep @ join sep (y # ys)"

definition sq :: string where
  "sq = [CHR 0x27]"

definition dq :: string where
  "dq = [CHR 0x22]"

definition fence :: string where
  "fence = [CHR 0x60, CHR 0x60, CHR 0x60]"

section \<open>Tables, KPI records and JSON values\<close>

text \<open>
  A \<open>pandas.DataFrame\<close>: its column labels and its rows of cells \<open>'c\<close>.
  \<open>DataFrame.empty\<close> holds when either axis has length zero.
\<close>

record 'c dataframe =
  columns :: "string list"
  rows :: "'c list list"

definition df_empty :: "'c dataframe \<Rightarrow> bool" where
  "df_empty df = (columns df = [] \<or> rows df = [])"

text \<open>
  A KPI record is a dict with the keys \<open>KPI\<close>, \<open>Description\<close> and \<open>Fields\<close>, each of
  which may be absent. The dict is falsy when it has no key.
\<close>

record kpi =
  KPI :: "string option"
  Description :: "string option"
  Fields :: "string list option"

definition kpi_falsy :: "kpi \<Rightarrow> bool" where
  "kpi_falsy k = (KPI k = None \<and> Description k = None \<and> Fields k = None)"

text \<open>What \<open>json.loads\<close> returns; \<open>'n\<close> is the type of the numbers.\<close>

datatype 'n json =
  JNull
| JBool bool
| JNumber 'n
| JString string
| JArray "'n json list"
| JObject "(string \<times> 'n json) list"

text \<open>
  The services and libraries the agents call:
  \<^item> \<open>generate_content\<close>: the prompt goes to the model, \<open>response.text\<close> comes back;
  \<^item> \<open>sql_engine\<close>: \<open>pandas.read_sql_query\<close> on a connection of the engine,
    \<open>None\<close> when no engine is configured;
  \<^item> \<open>json_loads\<close>: \<open>json.loads\<close>;
  \<^item> \<open>exec_code\<close>: \<open>exec\<close> of a code text with \<open>data_df\<close> bound to the table,
    returning \<open>local_vars.get('fig')\<close>, an object \<open>'o\<close> or \<open>None\<close>;
  \<^item> \<open>truthy\<close> and \<open>has_show\<close>: the truth value of such an object and
    \<open>hasattr(fig, 'show')\<close>;
  \<^item> \<open>records_repr\<close>: the text of \<open>data.head(num_rows).to_dict(orient='records')\<close>.
\<close>

record ('w, 'c, 'o, 'n) env =
  generate_content :: "string \<Rightarrow> 'w \<Rightarrow> (exn + string) \<times> 'w"
  sql_engine :: "(string \<Rightarrow> 'w \<Rightarrow> (exn + 'c dataframe) \<times> 'w) option"
  json_loads :: "string \<Rightarrow> exn + 'n json"
  exec_code :: "string \<Rightarrow> 'c dataframe \<Rightarrow> 'w \<Rightarrow> (exn + 'o option) \<times> 'w"
  truthy :: "'o \<Rightarrow> bool"
  has_show :: "'o \<Rightarrow> bool"
  records_repr :: "nat \<Rightarrow> 'c dataframe \<Rightarrow> string"

definition model_generate_content ::
  "('w, 'c, 'o, 'n) env \<Rightarrow> string \<Rightarrow> 'w state \<Rightarrow> (exn + string) \<times> 'w state" where
  "model_generate_content env prompt st =
     (case generate_content env prompt (world st) of
        (r, w) \<Rightarrow> (r, st\<lparr>world := w, calls := calls st @ [ModelCall prompt]\<rparr>))"

section \<open>Data retrieval (dataretrievalagent.py)\<close>

definition sql_prompt :: "schema_api \<Rightarrow> kpi \<Rightarrow> string" where
  "sql_prompt api k =
     (let fields = dict_get (Fields k) [];
          kpi_name = dict_get (KPI k) ''Unknown KPI'';
          kpi_desc = dict_get (Description k) '''';
          dim_fields = dimensions api;
          id_fields = identifiers api;
          schema_info =
            ''Metrics: '' @ join '', '' (metrics api) @ ''\<newline>'' @
            ''Dimensions: '' @ join '', '' dim_fields @ ''\<newline>'' @
            ''Identifiers: '' @ join '', '' id_fields
      in ''\<newline>You are a skilled data engineer.\<newline>\<newline>'' @
         ''Given the dataset schema below:\<newline>\<newline>'' @
         schema_info @ ''\<newline>\<newline>'' @
         ''Write a SQL query that returns the minimal data required to compute the KPI named '' @
         sq @ kpi_name @ sq @ ''.\<newline>\<newline>'' @
         ''KPI description: '' @ kpi_desc @ ''\<newline>\<newline>'' @
         ''The data should include these fields: '' @ join '', '' fields @ ''.\<newline>'' @
         ''Assume the main table is named '' @ sq @ ''main_table'' @ sq @ ''.\<newline>'' @
         ''Your SQL query should assign the result to a variable named '' @ sq @ ''result'' @ sq @
         '' or return the final SELECT statement.\<newline>\<newline>'' @
         ''Return ONLY the SQL query without explanations or comments.\<newline>'')"

definition generate_code_for_kpi ::
  "('w, 'c, 'o, 'n) env \<Rightarrow> schema_api \<Rightarrow> kpi \<Rightarrow> 'w state \<Rightarrow> (exn + string) \<times> 'w state" where
  "generate_code_for_kpi env api k st =
     (case model_generate_content env (sql_prompt api k) st of
        (Inl e, st1) \<Rightarrow> (Inl e, st1)
      | (Inr text, st1) \<Rightarrow> (Inr (strip text), st1))"

text \<open>
  \<open>clean_sql_code\<close>. The first substitution removes, at the start of the stripped text,
  the fence followed by \<open>sql\<close> in any casing and the white space after it. The second
  removes a fence at \<open>$\<close>: at the end of the text, or before a line feed that ends it.
\<close>

definition clean_sql_code :: "string \<Rightarrow> string" where
  "clean_sql_code sql_text =
     (let s = strip sql_text;
          cleaned =
            (if take 3 s = fence \<and> lower (take 3 (drop 3 s)) = ''sql''
             then dropWhile isspace (drop 6 s) else s);
          cleaned =
            (if endswith cleaned fence then take (length cleaned - 3) cleaned
             else if endswith cleaned (fence @ ''\<newline>'')
             then take (length cleaned - 4) cleaned @ ''\<newline>''
             else cleaned)
      in strip cleaned)"

definition run_sql ::
  "('w, 'c, 'o, 'n) env \<Rightarrow> string \<Rightarrow> 'w state \<Rightarrow> (exn + 'c dataframe) \<times> 'w state" where
  "run_sql env query st =
     (let cleaned_query = clean_sql_code query
      in case sql_engine env of
           None \<Rightarrow> (Inl (ValueError ''SQL engine is not configured.''), st)
         | Some read_sql_query \<Rightarrow>
             (case read_sql_query cleaned_query (world st) of
                (r, w) \<Rightarrow> (r, st\<lparr>world := w, calls := calls st @ [SqlCall cleaned_query]\<rparr>)))"

definition get_data_for_kpi ::
  "('w, 'c, 'o, 'n) env \<Rightarrow> schema_api \<Rightarrow> kpi \<Rightarrow> 'w state \<Rightarrow> (exn + 'c dataframe) \<times> 'w state" where
  "get_data_for_kpi env api k st =
     (case generate_code_for_kpi env api k st of
        (Inl e, st1) \<Rightarrow> (Inl e, st1)
      | (Inr sql, st1) \<Rightarrow>
          run_sql env sql
            (print (''Generated SQL for KPI '' @ sq @ dict_get (KPI k) '''' @ sq @
                    '':\<newline>'' @ sql @ ''\<newline>'') st1))"

text \<open>
  \<open>get_data_for_all_kpis\<close> is a generator. \<open>get_data_for_all_kpis_next\<close> is one turn
  of its loop, from the state in which the consumer asks for the next pair: the pair it
  yields and the state it leaves. \<open>get_data_for_all_kpis\<close> is the generator run to its
  end with nothing in between: the pairs in the order yielded, and the last state.
\<close>

definition get_data_for_all_kpis_next ::
  "('w, 'c, 'o, 'n) env \<Rightarrow> schema_api \<Rightarrow> kpi \<Rightarrow> 'w state \<Rightarrow>
     (string \<times> 'c dataframe option) \<times> 'w state" where
  "get_data_for_all_kpis_next env api k st =
     (let kpi_name = dict_get (KPI k) ''Unnamed_KPI''
      in case get_data_for_kpi env api k st of
           (Inr df, st1) \<Rightarrow> ((kpi_name, Some df), st1)
         | (Inl e, st1) \<Rightarrow>
             ((kpi_name, None),
              print (''Failed to retrieve data for KPI '' @ sq @ kpi_name @ sq @ '': '' @
                     exn_str e) st1))"

fun get_data_for_all_kpis ::
  "('w, 'c, 'o, 'n) env \<Rightarrow> schema_api \<Rightarrow> kpi list \<Rightarrow> 'w state \<Rightarrow>
     (string \<times> 'c dataframe option) list \<times> 'w state" where
  "get_data_for_all_kpis env api [] st = ([], st)"
| "get_data_for_all_kpis env api (k # ks) st =
     (case get_data_for_all_kpis_next env api k st of
        (p, st1) \<Rightarrow>
          (case get_data_for_all_kpis env api ks st1 of
             (ps, st2) \<Rightarrow> (p # ps, st2)))"

section \<open>KPI proposal (KPIidentificationagent.py)\<close>

text \<open>
  \<open>format_schema_for_prompt\<close> goes through the roles \<open>identifiers\<close>, \<open>metrics\<close> and
  \<open>dimensions\<close>; the heading of a role is \<open>role.capitalize()\<close>, written out here.
\<close>

definition format_schema_for_prompt :: "schema_api \<Rightarrow> string" where
  "format_schema_for_prompt api =
     join ''\<newline>''
       (concat
          (map (\<lambda>(role, fields).
                  if fields = [] then []
                  else (role @ '' fields:'') # map (\<lambda>f. '' - '' @ f) fields)
             [(''Identifiers'', identifiers api), (''Metrics'', metrics api),
              (''Dimensions'', dimensions api)]))"

definition create_prompt :: "schema_api \<Rightarrow> string \<Rightarrow> string" where
  "create_prompt api user_query =
     (let schema_str = format_schema_for_prompt api
      in ''\<newline>'' @
         ''You are an expert analytics assistant.\<newline>'' @
         ''\<newline>'' @
         ''Given the dataset schema below:\<newline>'' @
         ''\<newline>'' @
         schema_str @ ''\<newline>'' @
         ''\<newline>'' @
         ''And the user query:\<newline>'' @
         ''\<newline>'' @
         dq @ dq @ dq @ user_query @ dq @ dq @ dq @ ''\<newline>'' @
         ''\<newline>'' @
         ''Please suggest a list of KPIs that address the user'' @ sq @
         ''s business goals.\<newline>'' @
         ''Also suggest necessary Descriptive statistics.\<newline>'' @
         ''-help user understand the data\<newline>'' @
         ''-help user see full picture of the situation \<newline>'' @
         ''Choose KPIs that are aligned with strategic goals, measurable with available data, actionable, clearly defined, and free from unintended negative incentives.\<newline>'' @
         ''For each KPI(key performance indicator), provide the following fields in JSON array format:\<newline>'' @
         ''- '' @ dq @ ''KPI'' @ dq @ '': The KPI name as a string\<newline>'' @
         ''- '' @ dq @ ''Description'' @ dq @
         '': A brief explanation or formula of the KPI\<newline>'' @
         ''- '' @ dq @ ''Fields'' @ dq @
         '': A list of the related schema fields used to compute this KPI\<newline>'' @
         ''\<newline>'' @
         ''Example response:\<newline>'' @
         ''\<newline>'' @
         ''[\<newline>'' @
         ''  {\<newline>'' @
         ''    '' @ dq @ ''KPI'' @ dq @ '': '' @ dq @ ''Total Sales'' @ dq @ '',\<newline>'' @
         ''    '' @ dq @ ''Description'' @ dq @ '': '' @ dq @ ''Sum of sales amount over the period'' @
         dq @ '',\<newline>'' @
         ''    '' @ dq @ ''Fields'' @ dq @ '': ['' @ dq @ ''sales_amount'' @ dq @ '']\<newline>'' @
         ''  },\<newline>'' @
         ''  {\<newline>'' @
         ''    '' @ dq @ ''KPI'' @ dq @ '': '' @ dq @ ''Customer Count'' @ dq @ '',\<newline>'' @
         ''    '' @ dq @ ''Description'' @ dq @ '': '' @ dq @ ''Number of unique customers'' @ dq @
         '',\<newline>'' @
         ''    '' @ dq @ ''Fields'' @ dq @ '': ['' @ dq @ ''customer_id'' @ dq @ '']\<newline>'' @
         ''  }\<newline>'' @
         '']\<newline>'' @
         ''Your response must be ONLY a valid JSON array matching the example format.\<newline>'' @
         ''DO NOT include unncessary things like '' @ sq @ sq @ sq @ '' '' @ dq @ dq @
         '' json etc\<newline>'' @
         ''ONLY GIVE VALID JSON\<newline>'')"

definition call_llm ::
  "('w, 'c, 'o, 'n) env \<Rightarrow> string \<Rightarrow> 'w state \<Rightarrow> (exn + string) \<times> 'w state" where
  "call_llm env prompt st = model_generate_content env prompt st"

text \<open>
  \<open>parse_kpi_json\<close> returns what \<open>json.loads\<close> returns, and Python's \<open>None\<close>, which
  is \<open>JNull\<close>, when the text does not decode. Only \<open>json.JSONDecodeError\<close> is caught.
\<close>

definition parse_kpi_json ::
  "('w, 'c, 'o, 'n) env \<Rightarrow> string \<Rightarrow> 'w state \<Rightarrow> (exn + 'n json) \<times> 'w state" where
  "parse_kpi_json env text st =
     (case json_loads env text of
        Inr kpis \<Rightarrow> (Inr kpis, st)
      | Inl (JSONDecodeError m) \<Rightarrow>
          (Inr JNull,
           print (''Raw LLM output: '' @ text)
             (print ''Failed to parse JSON from LLM response.'' st))
      | Inl e \<Rightarrow> (Inl e, st))"

definition suggest_kpis ::
  "('w, 'c, 'o, 'n) env \<Rightarrow> schema_api \<Rightarrow> string \<Rightarrow> 'w state \<Rightarrow> (exn + 'n json) \<times> 'w state" where
  "suggest_kpis env api user_query st =
     (case call_llm env (create_prompt api user_query) st of
        (Inl e, st1) \<Rightarrow> (Inl e, st1)
      | (Inr llm_output, st1) \<Rightarrow> parse_kpi_json env llm_output st1)"

section \<open>Visualization (visualizationagent.py)\<close>

definition chart_prompt :: "string \<Rightarrow> string \<Rightarrow> string \<Rightarrow> string" where
  "chart_prompt kpi_name kpi_desc insight_summary =
     (''\<newline>'' @
      ''You are a data visualization expert.\<newline>'' @
      ''\<newline>'' @
      ''Given the KPI named '' @ dq @ kpi_name @ dq @ '' with description:\<newline>'' @
      dq @ dq @ dq @ kpi_desc @ dq @ dq @ dq @ ''\<newline>'' @
      ''\<newline>'' @
      ''And the following insights related to this KPI:\<newline>'' @
      dq @ dq @ dq @ insight_summary @ dq @ dq @ dq @ ''\<newline>'' @
      ''\<newline>'' @
      ''Please suggest the best chart type(s) to visualize this KPI'' @ sq @ ''s data.\<newline>'' @
      ''For each suggested chart, provide a JSON object with keys:\<newline>'' @
      ''- chart_type (e.g., bar, line, pie, scatter)\<newline>'' @
      ''- x_axis (column name for x axis)\<newline>'' @
      ''- y_axis (column name for y axis, if applicable)\<newline>'' @
      ''- title (a concise chart title)\<newline>'' @
      ''- color (optional, column to color/group by)\<newline>'' @
      ''-select graphs based on understandability, presentability and suitability\<newline>'' @
      ''If multiple charts are suitable, return a JSON list of such objects.\<newline>'' @
      ''Respond with ONLY the JSON.\<newline>'')"

text \<open>
  \<open>suggest_chart_types\<close>: a decoded object becomes a list of one, a decoded list is
  returned as it is, any other decoded value and a text that does not decode give
  \<open>None\<close>. Only \<open>json.JSONDecodeError\<close> is caught; the call of the model is outside
  the \<open>try\<close>.
\<close>

definition suggest_chart_types ::
  "('w, 'c, 'o, 'n) env \<Rightarrow> string \<Rightarrow> string \<Rightarrow> string \<Rightarrow> 'w state \<Rightarrow>
     (exn + 'n json list option) \<times> 'w state" where
  "suggest_chart_types env kpi_name kpi_desc insight_summary st =
     (case model_generate_content env (chart_prompt kpi_name kpi_desc insight_summary) st of
        (Inl e, st1) \<Rightarrow> (Inl e, st1)
      | (Inr response_text, st1) \<Rightarrow>
          (let text = strip response_text
           in case json_loads env text of
                Inr (JObject d) \<Rightarrow> (Inr (Some [JObject d]), st1)
              | Inr (JArray l) \<Rightarrow> (Inr (Some l), st1)
              | Inr other \<Rightarrow>
                  (Inr None, print ''Unexpected JSON structure from LLM chart suggestion.'' st1)
              | Inl (JSONDecodeError m) \<Rightarrow>
                  (Inr None,
                   print (''LLM response was: '' @ text)
                     (print (''Failed to parse chart suggestion JSON: '' @ m) st1))
              | Inl e \<Rightarrow> (Inl e, st1)))"

text \<open>
  \<open>_clean_generated_code\<close> substitutes two patterns, both with \<open>re.MULTILINE\<close>.
  \<open>opening_match\<close> is the length of the match of the first pattern, a fence, then
  \<open>python\<close> if it is there, then a line feed if it is there, at the head of a text
  (0 for no match); the pattern is anchored at a line start, so \<open>sub_opening\<close> tries it
  only at the start of the text and after a line feed. \<open>closing_match\<close> is the length
  of the match of the second pattern, a line feed if it is there, then a fence that ends
  its line, at the head of a text.
\<close>

definition opening_match :: "string \<Rightarrow> nat" where
  "opening_match s =
     (if take 3 s = fence
      then (let k = (if take 6 (drop 3 s) = ''python'' then 9 else 3)
            in if take 1 (drop k s) = ''\<newline>'' then k + 1 else k)
      else 0)"

function sub_opening :: "bool \<Rightarrow> string \<Rightarrow> string" where
  "sub_opening bol [] = []"
| "sub_opening bol (c # cs) =
     (if bol \<and> 0 < opening_match (c # cs)
      then sub_opening (last (take (opening_match (c # cs)) (c # cs)) = CHR 0x0A)
             (drop (opening_match (c # cs)) (c # cs))
      else c # sub_opening (c = CHR 0x0A) cs)"
  by pat_completeness auto
termination
  by (relation "measure (\<lambda>(bol, s). length s)") auto

definition at_eol :: "string \<Rightarrow> bool" where
  "at_eol s = (case s of [] \<Rightarrow> True | c # cs \<Rightarrow> c = CHR 0x0A)"

definition closing_match :: "string \<Rightarrow> nat" where
  "closing_match s =
     (if take 1 s = ''\<newline>'' \<and> take 3 (drop 1 s) = fence \<and> at_eol (drop 4 s) then 4
      else if take 3 s = fence \<and> at_eol (drop 3 s) then 3
      else 0)"

function sub_closing :: "string \<Rightarrow> string" where
  "sub_closing [] = []"
| "sub_closing (c # cs) =
     (if 0 < closing_match (c # cs)
      then sub_closing (drop (closing_match (c # cs)) (c # cs))
      else c # sub_closing cs)"
  by pat_completeness auto
termination
  by (relation "measure length") auto

definition clean_generated_code :: "string \<Rightarrow> string" where
  "clean_generated_code code = sub_closing (sub_opening True code)"

definition plotly_prompt :: "string \<Rightarrow> string \<Rightarrow> string \<Rightarrow> string \<Rightarrow> string" where
  "plotly_prompt kpi_name kpi_desc insight_summary data_sample =
     (''\<newline>'' @
      ''You are a python data visualization expert.\<newline>'' @
      ''\<newline>'' @
      ''Given the KPI named '' @ dq @ kpi_name @ dq @ '' with description:\<newline>'' @
      dq @ dq @ dq @ kpi_desc @ dq @ dq @ dq @ ''\<newline>'' @
      ''\<newline>'' @
      ''And the following insights:\<newline>'' @
      dq @ dq @ dq @ insight_summary @ dq @ dq @ dq @ ''\<newline>'' @
      ''\<newline>'' @
      ''Here is a sample of the KPI data (as a list of dictionaries):\<newline>'' @
      data_sample @ ''\<newline>'' @
      ''\<newline>'' @
      ''Write a complete Python code snippet using Plotly (express or graph_objects) to create one or more relevant charts visualizing this KPI.\<newline>'' @
      ''- The data is available in a variable named '' @ [CHR 0x60] @ ''data_df'' @ [CHR 0x60] @
      '' (a pandas DataFrame).\<newline>'' @
      ''- Name the resulting figure variable '' @ [CHR 0x60] @ ''fig'' @ [CHR 0x60] @
      ''.\<newline>'' @
      ''- Include imports if necessary.\<newline>'' @
      ''- Add meaningful titles, axis labels, and color grouping if applicable.\<newline>'' @
      ''- Do not include any explanation or print statements, only the code.\<newline>'' @
      ''- The code should be executable standalone given the variable '' @ [CHR 0x60] @
      ''data_df'' @ [CHR 0x60] @ ''.\<newline>'' @
      ''-Make the graph visually attractive\<newline>'' @
      ''Example:\<newline>'')"

text \<open>
  \<open>generate_plotly_code\<close>, with \<open>num_rows\<close> at its default 10. The call of the model is
  outside the \<open>try\<close>; the execution of the code is inside.
\<close>

definition generate_plotly_code ::
  "('w, 'c, 'o, 'n) env \<Rightarrow> string \<Rightarrow> string \<Rightarrow> string \<Rightarrow> 'c dataframe \<Rightarrow> 'w state \<Rightarrow>
     (exn + 'o option) \<times> 'w state" where
  "generate_plotly_code env kpi_name kpi_desc insight_summary data st =
     (let data_sample = records_repr env 10 data
      in case model_generate_content env
                (plotly_prompt kpi_name kpi_desc insight_summary data_sample) st of
           (Inl e, st1) \<Rightarrow> (Inl e, st1)
         | (Inr response_text, st1) \<Rightarrow>
             (let code_str = clean_generated_code (strip response_text)
              in case exec_code env code_str data (world st1) of
                   (r, w) \<Rightarrow>
                     (let st2 = st1\<lparr>world := w, calls := calls st1 @ [ExecCall code_str]\<rparr>
                      in case r of
                           Inr (Some fig) \<Rightarrow>
                             if truthy env fig \<and> has_show env fig then (Inr (Some fig), st2)
                             else (Inr None,
                                   print (''Generated code was:\<newline> '' @ code_str)
                                     (print (''Generated code did not create a Plotly figure named '' @
                                             sq @ ''fig'' @ sq @ ''.'') st2))
                         | Inr None \<Rightarrow>
                             (Inr None,
                              print (''Generated code was:\<newline> '' @ code_str)
                                (print (''Generated code did not create a Plotly figure named '' @
                                        sq @ ''fig'' @ sq @ ''.'') st2))
                         | Inl e \<Rightarrow>
                             (Inr None,
                              print (''Generated code was:\<newline> '' @ code_str)
                                (print (''Error executing generated plotly code: '' @ exn_str e)
                                   st2)))))"

text \<open>
  \<open>create_visualization\<close>. \<open>not chart_suggestions\<close> holds of \<open>None\<close> and of the empty
  list. The source binds \<open>first_suggestion\<close> and then calls \<open>generate_plotly_code\<close>
  with the four arguments below.
\<close>

definition create_visualization ::
  "('w, 'c, 'o, 'n) env \<Rightarrow> string \<Rightarrow> string \<Rightarrow> string \<Rightarrow> 'c dataframe \<Rightarrow> 'w state \<Rightarrow>
     (exn + 'o option) \<times> 'w state" where
  "create_visualization env kpi_name kpi_desc insight_summary kpi_data st =
     (case suggest_chart_types env kpi_name kpi_desc insight_summary st of
        (Inl e, st1) \<Rightarrow> (Inl e, st1)
      | (Inr None, st1) \<Rightarrow>
          (Inr None, print ''No chart suggestions from LLM; skipping visualization.'' st1)
      | (Inr (Some []), st1) \<Rightarrow>
          (Inr None, print ''No chart suggestions from LLM; skipping visualization.'' st1)
      | (Inr (Some (s # ss)), st1) \<Rightarrow>
          (let first_suggestion = (s # ss) ! 0
           in generate_plotly_code env kpi_name kpi_desc insight_summary kpi_data st1))"

section \<open>Insight generation (insightgenerationagent.py)\<close>

text \<open>
  A trend is the dict \<open>detect_trends\<close> returns, with the keys \<open>field\<close>, \<open>trend\<close> and
  \<open>slope\<close>. An insight bundle is a dict from its keys to values of several kinds.
\<close>

record 'c trend =
  trend_field :: string
  trend_label :: string
  trend_slope :: 'c

datatype 'c insight_value =
  Frame "'c dataframe"
| ValueCounts "(string \<times> ('c \<times> nat) list) list"
| Trends "'c trend list"
| Indices "(string \<times> nat list) list"
| ClusterMap "(nat \<times> nat list) list"
| NoneValue
| Text string

type_synonym 'c insights = "(string \<times> 'c insight_value) list"

text \<open>
  The numeric routines of the agent are computations of pandas, numpy, scipy and
  scikit-learn on floating-point columns. The model takes each of them as a function
  of its arguments that returns its artefact or raises: \<open>descriptive_stats\<close>,
  \<open>categorical_summary\<close>, \<open>detect_trends\<close> (with the agent's \<open>datetime_col\<close>, the
  table, the field and the window), \<open>correlation_matrix\<close>, \<open>anomaly_detection\<close> and
  \<open>detect_clusters\<close> (with the number of clusters). \<open>numeric_columns\<close> is
  \<open>select_dtypes(include=[np.number]).columns\<close>. The last four are the texts that
  \<open>generate_textual_insight\<close> lets pandas and Python format: the statistics table, the
  rounded correlation table, a slope as \<open>:.4f\<close>, and the \<open>str\<close> of a cell.
\<close>

record 'c numeric =
  descriptive_stats :: "'c dataframe \<Rightarrow> exn + 'c dataframe"
  categorical_summary :: "'c dataframe \<Rightarrow> exn + (string \<times> ('c \<times> nat) list) list"
  numeric_columns :: "'c dataframe \<Rightarrow> exn + string list"
  detect_trends :: "string option \<Rightarrow> 'c dataframe \<Rightarrow> string \<Rightarrow> int \<Rightarrow> exn + 'c trend option"
  correlation_matrix :: "'c dataframe \<Rightarrow> exn + 'c dataframe"
  anomaly_detection :: "'c dataframe \<Rightarrow> exn + (string \<times> nat list) list"
  detect_clusters :: "'c dataframe \<Rightarrow> int \<Rightarrow> exn + (nat \<times> nat list) list option"
  stats_to_string :: "'c dataframe \<Rightarrow> exn + string"
  corr_to_string :: "'c dataframe \<Rightarrow> exn + string"
  format_slope :: "'c \<Rightarrow> string"
  cell_str :: "'c \<Rightarrow> string"

text \<open>Sequencing of steps that can raise: the first exception ends the sequence.\<close>

definition bind_exn :: "exn + 'a \<Rightarrow> ('a \<Rightarrow> exn + 'b) \<Rightarrow> exn + 'b" where
  "bind_exn r f = (case r of Inl e \<Rightarrow> Inl e | Inr x \<Rightarrow> f x)"

text \<open>\<open>str(n)\<close> of a count.\<close>

fun str_nat :: "nat \<Rightarrow> string" where
  "str_nat n =
     (if n < 10 then [char_of (48 + n)]
      else str_nat (n div 10) @ [char_of (48 + n mod 10)])"

definition insight_prompt ::
  "string \<Rightarrow> string \<Rightarrow> string \<Rightarrow> string \<Rightarrow> string \<Rightarrow> string \<Rightarrow> string" where
  "insight_prompt kpi_name kpi_desc stats_lines trend_descriptions corr_sample cat_summary_text =
     (''\<newline>'' @
      ''You are a data analyst assistant.\<newline>'' @
      ''\<newline>'' @
      ''Given the KPI named '' @ sq @ kpi_name @ sq @ '' with description:\<newline>'' @
      dq @ kpi_desc @ dq @ ''\<newline>'' @
      ''\<newline>'' @
      ''And the following descriptive statistics on relevant numeric fields:\<newline>'' @
      stats_lines @ ''\<newline>'' @
      ''\<newline>'' @
      ''The following trends have been detected over time:\<newline>'' @
      trend_descriptions @ ''\<newline>'' @
      ''\<newline>'' @
      ''And here is the correlation matrix among numeric features:\<newline>'' @
      corr_sample @ ''\<newline>'' @
      ''\<newline>'' @
      ''Additionally, here are some key categorical data distributions:\<newline>'' @
      cat_summary_text @ ''\<newline>'' @
      ''\<newline>'' @
      ''Generate a concise and clear natural-language summary of insights and potential recommendations related to this KPI, highlighting key statistics, trends, correlations, categorical distributions, and any notable observations.\<newline>'' @
      ''Respond ONLY with the summary text.\<newline>'')"

definition trend_description :: "'c numeric \<Rightarrow> 'c trend \<Rightarrow> string" where
  "trend_description num t =
     ''- Field '' @ sq @ trend_field t @ sq @ '' shows a '' @ trend_label t @
     '' trend (slope: '' @ format_slope num (trend_slope t) @ '')''"

definition categorical_text :: "'c numeric \<Rightarrow> (string \<times> ('c \<times> nat) list) list \<Rightarrow> string" where
  "categorical_text num cat_summary =
     (if cat_summary \<noteq> []
      then concat
             (map (\<lambda>(col, counts).
                     ''\<newline>Categorical distribution for '' @ sq @ col @ sq @ '':\<newline>'' @
                     concat
                       (map (\<lambda>(val, cnt).
                               '' - '' @ cell_str num val @ '': '' @ str_nat cnt @
                               '' records\<newline>'')
                          (take 5 counts)))
                cat_summary)
      else ''No categorical data available.'')"

definition generate_textual_insight ::
  "'c numeric \<Rightarrow> ('w, 'c, 'o, 'n) env \<Rightarrow> string \<Rightarrow> string \<Rightarrow> 'c dataframe \<Rightarrow> 'c trend list \<Rightarrow>
     'c dataframe \<Rightarrow> (string \<times> ('c \<times> nat) list) list \<Rightarrow> 'w state \<Rightarrow> (exn + string) \<times> 'w state" where
  "generate_textual_insight num env kpi_name kpi_desc desc_stats trends corr_matrix cat_summary st =
     (case (if df_empty desc_stats then Inr ''No numeric data available.''
            else stats_to_string num desc_stats) of
        Inl e \<Rightarrow> (Inl e, st)
      | Inr stats_lines \<Rightarrow>
          (let joined = join ''\<newline>'' (map (trend_description num) trends);
               trend_descriptions =
                 (if joined = [] then ''No significant trends detected.'' else joined)
           in case (if \<not> df_empty corr_matrix then corr_to_string num corr_matrix
                    else Inr ''No correlation data available.'') of
                Inl e \<Rightarrow> (Inl e, st)
              | Inr corr_sample \<Rightarrow>
                  (case model_generate_content env
                          (insight_prompt kpi_name kpi_desc stats_lines trend_descriptions
                             corr_sample (categorical_text num cat_summary)) st of
                     (Inl e, st1) \<Rightarrow> (Inl e, st1)
                   | (Inr response_text, st1) \<Rightarrow> (Inr (strip response_text), st1))))"

text \<open>
  The loop over the numeric columns in \<open>generate_insights_for_kpi\<close>: the trends that
  \<open>detect_trends\<close> finds with its default window 3, in column order.
\<close>

fun collect_trends ::
  "'c numeric \<Rightarrow> string option \<Rightarrow> 'c dataframe \<Rightarrow> string list \<Rightarrow> exn + 'c trend list" where
  "collect_trends num dc kpi_data [] = Inr []"
| "collect_trends num dc kpi_data (col # cols) =
     bind_exn (detect_trends num dc kpi_data col 3)
       (\<lambda>trend. bind_exn (collect_trends num dc kpi_data cols)
          (\<lambda>trends. Inr (case trend of None \<Rightarrow> trends | Some t \<Rightarrow> t # trends)))"

text \<open>
  \<open>generate_insights_for_kpi\<close>. The agent's \<open>datetime_col\<close> is \<open>dc\<close>; it is falsy when
  it is \<open>None\<close> or the empty text. \<open>failed_insights\<close> is the dict of the \<open>except\<close>
  branch.
\<close>

definition failed_insights :: "kpi \<Rightarrow> exn \<Rightarrow> 'c insights" where
  "failed_insights k e =
     [(''summary'',
       Text (''Failed to generate insights for KPI '' @ sq @ dict_get (KPI k) ''Unknown'' @ sq @
             '': '' @ exn_str e))]"

definition datetime_col_in :: "string option \<Rightarrow> 'c dataframe \<Rightarrow> bool" where
  "datetime_col_in dc kpi_data =
     (case dc of None \<Rightarrow> False | Some c \<Rightarrow> c \<noteq> [] \<and> List.member (columns kpi_data) c)"

definition generate_insights_for_kpi ::
  "'c numeric \<Rightarrow> ('w, 'c, 'o, 'n) env \<Rightarrow> string option \<Rightarrow> kpi \<Rightarrow> 'c dataframe \<Rightarrow> 'w state \<Rightarrow>
     'c insights \<times> 'w state" where
  "generate_insights_for_kpi num env dc k kpi_data st =
     (if df_empty kpi_data
      then ([(''summary'',
              Text (''No data available to generate insights for KPI '' @ sq @
                    dict_get (KPI k) ''Unknown'' @ sq @ ''.''))], st)
      else
        (case
           bind_exn (descriptive_stats num kpi_data) (\<lambda>desc_stats.
           bind_exn (categorical_summary num kpi_data) (\<lambda>cat_summary.
           bind_exn (if datetime_col_in dc kpi_data
                     then bind_exn (numeric_columns num kpi_data)
                            (collect_trends num dc kpi_data)
                     else Inr []) (\<lambda>trends.
           bind_exn (correlation_matrix num kpi_data) (\<lambda>corr.
           bind_exn (anomaly_detection num kpi_data) (\<lambda>anomalies.
           Inr (desc_stats, cat_summary, trends, corr, anomalies)))))) of
           Inl e \<Rightarrow> (failed_insights k e, st)
         | Inr (desc_stats, cat_summary, trends, corr, anomalies) \<Rightarrow>
             (let clusters = NoneValue
              in case generate_textual_insight num env (dict_get (KPI k) ''Unknown KPI'')
                        (dict_get (Description k) []) desc_stats trends corr cat_summary st of
                   (Inl e, st1) \<Rightarrow> (failed_insights k e, st1)
                 | (Inr summary, st1) \<Rightarrow>
                     ([(''descriptive_stats'', Frame desc_stats),
                       (''categorical_summary'', ValueCounts cat_summary),
                       (''trends'', Trends trends),
                       (''correlation_matrix'', Frame corr),
                       (''anomalies'', Indices anomalies),
                       (''clusters'', clusters),
                       (''summary'', Text summary)], st1))))"

section \<open>Dashboard assembly (dashboardassemblyagent.py)\<close>

text \<open>
  A card has the KPI name as heading, the insight text, and the chart or, without a
  figure, the placeholder text. The layout is the title and the cards, one per entry of
  the mapping, in the order of the mapping.
\<close>

datatype 'o chart_section = Graph 'o | Placeholder string

record 'o card =
  card_heading :: string
  card_insight :: string
  card_chart :: "'o chart_section"

definition generate_kpi_card ::
  "('w, 'c, 'o, 'n) env \<Rightarrow> string \<Rightarrow> string \<Rightarrow> 'o option \<Rightarrow> 'o card" where
  "generate_kpi_card env kpi_name insight_text figure =
     \<lparr>card_heading = kpi_name,
      card_insight = insight_text,
      card_chart =
        (case figure of
           None \<Rightarrow> Placeholder ''No visualization available''
         | Some fig \<Rightarrow>
             if truthy env fig then Graph fig else Placeholder ''No visualization available'')\<rparr>"

record 'o layout =
  layout_title :: string
  layout_cards :: "'o card list"

definition build_dashboard_layout ::
  "('w, 'c, 'o, 'n) env \<Rightarrow> (string \<times> string \<times> 'o option) list \<Rightarrow> string \<Rightarrow> 'o layout" where
  "build_dashboard_layout env kpi_insights_figures dashboard_title =
     \<lparr>layout_title = dashboard_title,
      layout_cards =
        map (\<lambda>(kpi_name, insight, figure). generate_kpi_card env kpi_name insight figure)
          kpi_insights_figures\<rparr>"

section \<open>The orchestrator (mainagent.py)\<close>

text \<open>
  \<open>main\<close> from its step 7 on, for the KPI list, the schema summary, the engine and the
  \<open>datetime_col\<close> that its steps 1 to 6 have set up. \<open>insights_summary\<close> is
  \<open>insights.get('summary', default)\<close>. \<open>main_process_kpi\<close> is the body of the loop
  of step 7 for one pair of the generator: it returns the mapping \<open>kpi_insights_figures\<close>,
  a dict in insertion order, or the exception that leaves \<open>main\<close>. \<open>main_loop\<close> is
  the loop, which asks the generator for a pair and processes it before it asks for the
  next. \<open>main_dashboard\<close> is step 8, without the blocking call that serves the page.
\<close>

definition insights_summary :: "'c insights \<Rightarrow> string \<Rightarrow> string" where
  "insights_summary insights d =
     (case map_of insights ''summary'' of Some (Text s) \<Rightarrow> s | _ \<Rightarrow> d)"

definition main_process_kpi ::
  "'c numeric \<Rightarrow> ('w, 'c, 'o, 'n) env \<Rightarrow> string option \<Rightarrow> kpi list \<Rightarrow>
     string \<times> 'c dataframe option \<Rightarrow> (string \<times> string \<times> 'o option) list \<Rightarrow> 'w state \<Rightarrow>
     (exn + (string \<times> string \<times> 'o option) list) \<times> 'w state" where
  "main_process_kpi num env dc kpis pair kpi_insights_figures st =
     (case pair of
        (kpi_name, df_subset) \<Rightarrow>
          (let st1 = print (''\<newline>=== Processing KPI: '' @ kpi_name @ '' ==='') st;
               skipped =
                 (Inr kpi_insights_figures,
                  print (''No data available for KPI '' @ sq @ kpi_name @ sq @ ''. Skipping.'') st1)
           in case df_subset of
                None \<Rightarrow> skipped
              | Some df \<Rightarrow>
                  if df_empty df then skipped
                  else
                    (case find (\<lambda>item. KPI item = Some kpi_name) kpis of
                       None \<Rightarrow>
                         (Inr kpi_insights_figures,
                          print (''KPI metadata missing for '' @ sq @ kpi_name @ sq @
                                 ''. Skipping.'') st1)
                     | Some kpi_meta \<Rightarrow>
                         if kpi_falsy kpi_meta
                         then (Inr kpi_insights_figures,
                               print (''KPI metadata missing for '' @ sq @ kpi_name @ sq @
                                      ''. Skipping.'') st1)
                         else
                           (case generate_insights_for_kpi num env dc kpi_meta df st1 of
                              (insights, st2) \<Rightarrow>
                                (let st3 =
                                       print (''Insight summary:\<newline> '' @
                                              insights_summary insights ''No summary generated.'')
                                         st2
                                 in case create_visualization env
                                           (dict_get (KPI kpi_meta) kpi_name)
                                           (dict_get (Description kpi_meta) [])
                                           (insights_summary insights []) df st3 of
                                      (Inl e, st4) \<Rightarrow> (Inl e, st4)
                                    | (Inr fig, st4) \<Rightarrow>
                                        (Inr (AList.update kpi_name
                                                (insights_summary insights [], fig)
                                                kpi_insights_figures),
                                         print
                                           ((if (case fig of None \<Rightarrow> False
                                                 | Some f \<Rightarrow> truthy env f)
                                             then ''Visualization generated for KPI ''
                                             else ''No visualization generated for KPI '') @
                                            sq @ kpi_name @ sq @ ''.'') st4))))))"

fun main_loop ::
  "'c numeric \<Rightarrow> ('w, 'c, 'o, 'n) env \<Rightarrow> string option \<Rightarrow> schema_api \<Rightarrow> kpi list \<Rightarrow> kpi list \<Rightarrow>
     (string \<times> string \<times> 'o option) list \<Rightarrow> 'w state \<Rightarrow>
     (exn + (string \<times> string \<times> 'o option) list) \<times> 'w state" where
  "main_loop num env dc api kpis [] kpi_insights_figures st = (Inr kpi_insights_figures, st)"
| "main_loop num env dc api kpis (k # rest) kpi_insights_figures st =
     (case get_data_for_all_kpis_next env api k st of
        (pair, st1) \<Rightarrow>
          (case main_process_kpi num env dc kpis pair kpi_insights_figures st1 of
             (Inl e, st2) \<Rightarrow> (Inl e, st2)
           | (Inr figures, st2) \<Rightarrow> main_loop num env dc api kpis rest figures st2))"

definition main_dashboard ::
  "('w, 'c, 'o, 'n) env \<Rightarrow> (string \<times> string \<times> 'o option) list \<Rightarrow> 'w state \<Rightarrow>
     'o layout option \<times> 'w state" where
  "main_dashboard env kpi_insights_figures st =
     (if kpi_insights_figures \<noteq> []
      then (Some (build_dashboard_layout env kpi_insights_figures
                    ''Student Migration KPIs Dashboard''),
            print ''Running dashboard on http://localhost:8050 (close terminal to stop)...''
              (print ''\<newline>Building dashboard...'' st))
      else (None, print ''No insights or visualizations to build dashboard.'' st))"

section \<open>A scripted world for the examples\<close>

text \<open>
  The examples below run the agents in a small world. The model answers from a script,
  one entry per call; the engine knows two queries; \<open>demo_loads\<close> decodes four texts
  and rejects every other one as \<open>json.loads\<close> rejects a text that is not JSON;
  executing the code \<open>fig = 1\<close> binds a figure.
\<close>

definition scripted_model ::
  "string \<Rightarrow> (exn + string) list \<Rightarrow> (exn + string) \<times> (exn + string) list" where
  "scripted_model prompt w =
     (case w of
        [] \<Rightarrow> (Inl (OtherException ''no response''), [])
      | r # rs \<Rightarrow> (r, rs))"

definition demo_read_sql_query ::
  "string \<Rightarrow> (exn + string) list \<Rightarrow> (exn + int dataframe) \<times> (exn + string) list" where
  "demo_read_sql_query q w =
     (if q = ''SELECT total_spent FROM main_table''
      then (Inr \<lparr>columns = [''total_spent''], rows = [[120], [80]]\<rparr>, w)
      else if q = ''SELECT total_spent FROM main_table WHERE 1 = 0''
      then (Inr \<lparr>columns = [''total_spent''], rows = []\<rparr>, w)
      else (Inl (OtherException ''no such column''), w))"

definition two_charts_text :: string where
  "two_charts_text =
     ''[{'' @ dq @ ''chart_type'' @ dq @ '': '' @ dq @ ''bar'' @ dq @ ''}, {'' @ dq @
     ''chart_type'' @ dq @ '': '' @ dq @ ''line'' @ dq @ ''}]''"

definition one_chart_text :: string where
  "one_chart_text =
     ''{'' @ dq @ ''chart_type'' @ dq @ '': '' @ dq @ ''pie'' @ dq @ ''}''"

definition demo_loads :: "string \<Rightarrow> exn + int json" where
  "demo_loads text =
     (if text = two_charts_text
      then Inr (JArray [JObject [(''chart_type'', JString ''bar'')],
                        JObject [(''chart_type'', JString ''line'')]])
      else if text = one_chart_text then Inr (JObject [(''chart_type'', JString ''pie'')])
      else if text = ''[]'' then Inr (JArray [])
      else if text = ''7'' then Inr (JNumber 7)
      else Inl (JSONDecodeError ''Expecting value: line 1 column 1 (char 0)''))"

definition demo_env :: "((exn + string) list, int, string, int) env" where
  "demo_env =
     \<lparr>generate_content = scripted_model,
      sql_engine = Some demo_read_sql_query,
      json_loads = demo_loads,
      exec_code =
        (\<lambda>code df w. (if code = ''fig = 1'' then Inr (Some ''figure'') else Inr None, w)),
      truthy = (\<lambda>obj. obj \<noteq> []),
      has_show = (\<lambda>obj. obj = ''figure''),
      records_repr = (\<lambda>n df. ''[...]'')\<rparr>"

definition demo_api :: schema_api where
  "demo_api =
     \<lparr>all_fields = [''user_id'', ''total_spent''], metrics = [''total_spent''],
      dimensions = [], identifiers = [''user_id'']\<rparr>"

definition demo_kpi :: "string \<Rightarrow> kpi" where
  "demo_kpi name =
     \<lparr>KPI = Some name, Description = Some ''a sum'', Fields = Some [''total_spent'']\<rparr>"

definition demo_state :: "(exn + string) list \<Rightarrow> (exn + string) list state" where
  "demo_state script = \<lparr>world = script, stdout = [], calls = []\<rparr>"

text \<open>
  The numeric routines of the examples return the table they are given as every table
  artefact, and find no categories, trends or anomalies.
\<close>

definition demo_numeric :: "int numeric" where
  "demo_numeric =
     \<lparr>descriptive_stats = (\<lambda>df. Inr df),
      categorical_summary = (\<lambda>df. Inr []),
      numeric_columns = (\<lambda>df. Inr (columns df)),
      detect_trends = (\<lambda>dc df col window. Inr None),
      correlation_matrix = (\<lambda>df. Inr df),
      anomaly_detection = (\<lambda>df. Inr (map (\<lambda>col. (col, [])) (columns df))),
      detect_clusters = (\<lambda>df n. Inr (Some [(0, [0]), (1, [1])])),
      stats_to_string = (\<lambda>df. Inr ''(statistics)''),
      corr_to_string = (\<lambda>df. Inr ''(correlations)''),
      format_slope = (\<lambda>c. ''0.0000''),
      cell_str = (\<lambda>c. ''?'')\<rparr>"

text \<open>
  \<open>json.loads\<close> does not only accept a text or reject it with a \<open>JSONDecodeError\<close>.
  \<open>limits_loads\<close> adds to \<open>demo_loads\<close> what CPython's decoder does, with its default
  limits, on two texts that are not JSON: 2000 opening brackets exhaust the recursion
  limit (a \<open>RecursionError\<close>), and an opening bracket before 5000 digits exceeds the
  limit of 4300 digits of an integer (a plain \<open>ValueError\<close>).
\<close>

definition limits_loads :: "string \<Rightarrow> exn + int json" where
  "limits_loads text =
     (if text = replicate 2000 (CHR ''['')
      then Inl (OtherException
                  ''maximum recursion depth exceeded while decoding a JSON array from a unicode string'')
      else if text = CHR ''['' # replicate 5000 (CHR ''1'')
      then Inl (ValueError
                  (''Exceeds the limit (4300 digits) for integer string conversion: '' @
                   ''value has 5000 digits; use sys.set_int_max_str_digits() to increase the limit''))
      else demo_loads text)"

definition limits_env :: "((exn + string) list, int, string, int) env" where
  "limits_env = demo_env\<lparr>json_loads := limits_loads\<rparr>"

section \<open>Trend detection (InsightGenerationAgent.detect_trends)\<close>

text \<open>
  A Python or numpy float, as far as comparisons see it: a finite value, which is a real
  number (both zeros are \<open>Finite 0\<close>), an infinity, or NaN. \<open>gt_zero\<close>, \<open>lt_zero\<close>
  and \<open>eq_zero\<close> are \<open>slope > 0\<close>, \<open>slope < 0\<close> and \<open>slope == 0\<close>; all three are
  false of NaN.
\<close>

datatype pyfloat = Finite real | PosInf | NegInf | NaN

fun gt_zero :: "pyfloat \<Rightarrow> bool" where
  "gt_zero (Finite x) = (0 < x)"
| "gt_zero PosInf = True"
| "gt_zero NegInf = False"
| "gt_zero NaN = False"

fun lt_zero :: "pyfloat \<Rightarrow> bool" where
  "lt_zero (Finite x) = (x < 0)"
| "lt_zero PosInf = False"
| "lt_zero NegInf = True"
| "lt_zero NaN = False"


text \<open>
  The three library computations of \<open>detect_trends\<close>, each returning its value or
  raising:
  \<^item> \<open>select_dropna_sort data dc field\<close> is
    \<open>data[[dc, field]].dropna().sort_values(dc)\<close>, the rows that remain as pairs of a
    time cell and a value cell;
  \<^item> \<open>rolling_mean_dropna values window\<close> is
    \<open>ts[field].rolling(window=window).mean().dropna()\<close> on the value cells;
  \<^item> \<open>polyfit_slope y\<close> is \<open>np.polyfit(np.arange(len(y)), y, 1)[0]\<close>.
\<close>

record 'c trend_lib =
  select_dropna_sort :: "'c dataframe \<Rightarrow> string \<Rightarrow> string \<Rightarrow> exn + ('c \<times> 'c) list"
  rolling_mean_dropna :: "'c list \<Rightarrow> int \<Rightarrow> exn + pyfloat list"
  polyfit_slope :: "pyfloat list \<Rightarrow> exn + pyfloat"

text \<open>
  \<open>detect_trends\<close>, the method itself, with the agent's \<open>datetime_col\<close> as an argument.
  (The field of the same name in the record \<open>numeric\<close> above stands for the method as a
  whole.)
\<close>

definition detect_trends ::
  "'c trend_lib \<Rightarrow> string option \<Rightarrow> 'c dataframe \<Rightarrow> string \<Rightarrow> int \<Rightarrow>
     exn + pyfloat trend option" where
  "detect_trends lib datetime_col data field window =
     (if \<not> datetime_col_in datetime_col data \<or> \<not> List.member (columns data) field
      then Inr None
      else
        (case select_dropna_sort lib data (dict_get datetime_col []) field of
           Inl e \<Rightarrow> Inl e
         | Inr ts \<Rightarrow>
             if int (length ts) < window + 1 then Inr None
             else
               (case rolling_mean_dropna lib (map snd ts) window of
                  Inl e \<Rightarrow> Inl e
                | Inr rolling_mean \<Rightarrow>
                    if length rolling_mean < 2 then Inr None
                    else
                      (case polyfit_slope lib rolling_mean of
                         Inl e \<Rightarrow> Inl e
                       | Inr slope \<Rightarrow>
                           (let trend =
                                  (if gt_zero slope then ''increasing''
                                   else if lt_zero slope then ''decreasing''
                                   else ''stable'')
                            in Inr (Some \<lparr>trend_field = field, trend_label = trend,
                                           trend_slope = slope\<rparr>))))))"








section \<open>Properties of schema inference\<close>

lemma lower_id: "lower ''id'' = ''id''"
  by code_simp

lemma lower_underscore_id: "lower ''_id'' = ''_id''"
  by code_simp

lemma lower_append: "lower (p @ u) = lower p @ lower u"
  by (simp add: lower_def)

lemma endswith_lower:
  assumes "endswith s ''_id''"
  shows "endswith (lower s) ''_id''"
proof -
  from assms obtain p where s: "s = p @ ''_id''"
    unfolding endswith_def suffix_def by blast
  have "lower s = lower p @ ''_id''"
    unfolding s lower_append lower_underscore_id ..
  then show ?thesis
    unfolding endswith_def suffix_def by blast
qed

lemma annotate_field_keeps:
  "field_name (annotate_field f) = field_name f"
  "semantic_type (annotate_field f) = semantic_type f"
  "table_name (annotate_field f) = table_name f"
  "dtype (annotate_field f) = dtype f"
  by (simp_all add: annotate_field_def Let_def)

lemma annotate_field_role:
  "role (annotate_field f) =
     Some (if lower (field_name f) = ''id'' \<or> endswith (lower (field_name f)) ''_id''
           then Identifier
           else if semantic_type f = Numerical then Metric else Dimension)"
  by (simp add: annotate_field_def Let_def)

lemma lower_examples:
  "lower ''user_id'' = ''user_id''" "lower ''total_spent'' = ''total_spent''"
  "lower ''city'' = ''city''"
  by code_simp+

lemma lower_cased_ids:
  "lower ''ID'' = ''id''" "lower ''Id'' = ''id''" "lower ''_ID'' = ''_id''" "lower ''_Id'' = ''_id''"
  by code_simp+

subsection \<open>C2: roles by name and semantic type\<close>

text \<open>
  C2, as amended. \<open>annotate_schema\<close> keeps the length, the names and the semantic
  types of the schema. A field whose name is \<open>id\<close> or ends with \<open>_id\<close> gets the
  role identifier whatever its semantic type. Among the fields whose lower-cased name
  is neither \<open>id\<close> nor ends with \<open>_id\<close>, a numerical field gets the role metric
  and every other field the role dimension.
\<close>

theorem annotate_schema_roles:
  assumes "i < length schema"
  shows "length (annotate_schema schema) = length schema \<and>
    (let f = schema ! i; g = annotate_schema schema ! i
     in field_name g = field_name f \<and> semantic_type g = semantic_type f \<and>
        ((field_name f = ''id'' \<or> endswith (field_name f) ''_id'') \<longrightarrow>
           role g = Some Identifier) \<and>
        (\<not> (lower (field_name f) = ''id'' \<or> endswith (lower (field_name f)) ''_id'') \<longrightarrow>
           (semantic_type f = Numerical \<longrightarrow> role g = Some Metric) \<and>
           (semantic_type f \<noteq> Numerical \<longrightarrow> role g = Some Dimension)))"
proof -
  let ?f = "schema ! i"
  have g: "annotate_schema schema ! i = annotate_field ?f"
    using assms by (simp add: annotate_schema_def)
  have named: "lower (field_name ?f) = ''id'' \<or> endswith (lower (field_name ?f)) ''_id''"
    if "field_name ?f = ''id'' \<or> endswith (field_name ?f) ''_id''"
    using that lower_id endswith_lower by auto
  show ?thesis
    unfolding Let_def g annotate_field_keeps annotate_field_role
    using named by (simp add: annotate_schema_def)
qed

theorem annotate_schema_roles_witness:
  "role (annotate_schema
     [\<lparr>table_name = ''t'', field_name = ''user_id'', dtype = ''int64'',
            semantic_type = Numerical, role = None\<rparr>,
          \<lparr>table_name = ''t'', field_name = ''total_spent'', dtype = ''float64'',
            semantic_type = Numerical, role = None\<rparr>,
          \<lparr>table_name = ''t'', field_name = ''city'', dtype = ''object'',
            semantic_type = Categorical, role = None\<rparr>] ! 0) = Some Identifier \<and>
   role (annotate_schema
     [\<lparr>table_name = ''t'', field_name = ''user_id'', dtype = ''int64'',
            semantic_type = Numerical, role = None\<rparr>,
          \<lparr>table_name = ''t'', field_name = ''total_spent'', dtype = ''float64'',
            semantic_type = Numerical, role = None\<rparr>,
          \<lparr>table_name = ''t'', field_name = ''city'', dtype = ''object'',
            semantic_type = Categorical, role = None\<rparr>] ! 1) = Some Metric \<and>
   role (annotate_schema
     [\<lparr>table_name = ''t'', field_name = ''user_id'', dtype = ''int64'',
            semantic_type = Numerical, role = None\<rparr>,
          \<lparr>table_name = ''t'', field_name = ''total_spent'', dtype = ''float64'',
            semantic_type = Numerical, role = None\<rparr>,
          \<lparr>table_name = ''t'', field_name = ''city'', dtype = ''object'',
            semantic_type = Categorical, role = None\<rparr>] ! 2) = Some Dimension"
  (is "role (annotate_schema ?S ! 0) = _ \<and> _")
proof -
  have "role (annotate_schema ?S ! 0) = Some Identifier"
    using annotate_schema_roles [of 0 ?S]
    by (simp add: Let_def endswith_def suffix_def)
  moreover have "role (annotate_schema ?S ! 1) = Some Metric"
    using annotate_schema_roles [of 1 ?S]
    by (simp add: Let_def endswith_def suffix_def lower_examples)
  moreover have "role (annotate_schema ?S ! 2) = Some Dimension"
    using annotate_schema_roles [of 2 ?S]
    by (simp add: Let_def endswith_def suffix_def lower_examples)
  ultimately show ?thesis by simp
qed

text \<open>
  C2 as the specification words it takes the name as it is written: the field \<open>ID\<close>
  is not named \<open>id\<close> and does not end with \<open>_id\<close>, it is numerical, and yet its
  role is identifier, not metric.
\<close>

theorem annotate_schema_upper_case_counterexample:
  "field_name \<lparr>table_name = ''t'', field_name = ''ID'', dtype = ''int64'',
            semantic_type = Numerical, role = None\<rparr> \<noteq> ''id'' \<and>
   \<not> endswith (field_name \<lparr>table_name = ''t'', field_name = ''ID'', dtype = ''int64'',
            semantic_type = Numerical, role = None\<rparr>) ''_id'' \<and>
   annotate_schema [\<lparr>table_name = ''t'', field_name = ''ID'', dtype = ''int64'',
            semantic_type = Numerical, role = None\<rparr>] =
     [\<lparr>table_name = ''t'', field_name = ''ID'', dtype = ''int64'',
            semantic_type = Numerical, role = Some Identifier\<rparr>]"
  by code_simp

subsection \<open>C10: the name test is case-insensitive\<close>

text \<open>
  C10. The name is lower-cased before the test: a field whose lower-cased name is
  \<open>id\<close>, or whose name ends with any casing of \<open>_id\<close> (so \<open>ID\<close>, \<open>Id\<close>, and
  names ending in \<open>_ID\<close> or \<open>_Id\<close>), gets the role identifier, whatever its
  semantic type: the metric and dimension rules are not reached.
\<close>

theorem annotate_schema_case_insensitive:
  assumes "i < length schema"
    and "lower (field_name (schema ! i)) = ''id'' \<or>
         (\<exists>p u. field_name (schema ! i) = p @ u \<and> lower u = ''_id'')"
  shows "role (annotate_schema schema ! i) = Some Identifier"
proof -
  let ?n = "field_name (schema ! i)"
  have "lower ?n = ''id'' \<or> endswith (lower ?n) ''_id''"
    using assms(2)
  proof
    assume "lower ?n = ''id''"
    then show ?thesis by simp
  next
    assume "\<exists>p u. ?n = p @ u \<and> lower u = ''_id''"
    then obtain p u where "?n = p @ u" and "lower u = ''_id''" by blast
    then have "lower ?n = lower p @ ''_id''" by (simp add: lower_append)
    then show ?thesis by (simp add: endswith_def suffix_def)
  qed
  then show ?thesis
    using assms(1) by (simp add: annotate_schema_def annotate_field_role)
qed

theorem annotate_schema_case_insensitive_witness:
  "role (annotate_schema
      [\<lparr>table_name = ''t'', field_name = ''ID'', dtype = ''int64'',
        semantic_type = Numerical, role = None\<rparr>,
       \<lparr>table_name = ''t'', field_name = ''Order_Id'', dtype = ''float64'',
        semantic_type = Numerical, role = None\<rparr>] ! 0) = Some Identifier \<and>
   role (annotate_schema
      [\<lparr>table_name = ''t'', field_name = ''ID'', dtype = ''int64'',
        semantic_type = Numerical, role = None\<rparr>,
       \<lparr>table_name = ''t'', field_name = ''Order_Id'', dtype = ''float64'',
        semantic_type = Numerical, role = None\<rparr>] ! 1) = Some Identifier"
  (is "role (annotate_schema ?S ! 0) = _ \<and> _")
proof -
  have "role (annotate_schema ?S ! 0) = Some Identifier"
    by (rule annotate_schema_case_insensitive) (simp_all add: lower_cased_ids)
  moreover have "role (annotate_schema ?S ! 1) = Some Identifier"
  proof (rule annotate_schema_case_insensitive)
    have "field_name (?S ! 1) = ''Order'' @ ''_Id''" by simp
    then show "lower (field_name (?S ! 1)) = ''id'' \<or>
        (\<exists>p u. field_name (?S ! 1) = p @ u \<and> lower u = ''_id'')"
      using lower_cased_ids(4) by blast
  qed simp
  ultimately show ?thesis by simp
qed

section \<open>Properties of data retrieval\<close>

lemma next_fst:
  "fst (fst (get_data_for_all_kpis_next env api k st)) = dict_get (KPI k) ''Unnamed_KPI''"
  by (simp add: get_data_for_all_kpis_next_def Let_def split: prod.splits sum.splits)

lemma next_snd:
  "snd (fst (get_data_for_all_kpis_next env api k st)) =
     (case fst (get_data_for_kpi env api k st) of Inl e \<Rightarrow> None | Inr df \<Rightarrow> Some df)"
  by (simp add: get_data_for_all_kpis_next_def Let_def split: prod.splits sum.splits)

lemma all_names:
  "map fst (fst (get_data_for_all_kpis env api kpis st)) =
     map (\<lambda>k. dict_get (KPI k) ''Unnamed_KPI'') kpis"
proof (induction kpis arbitrary: st)
  case Nil
  show ?case by simp
next
  case (Cons k ks)
  obtain p st1 where n: "get_data_for_all_kpis_next env api k st = (p, st1)"
    by (cases "get_data_for_all_kpis_next env api k st")
  obtain ps st2 where r: "get_data_for_all_kpis env api ks st1 = (ps, st2)"
    by (cases "get_data_for_all_kpis env api ks st1")
  have "fst p = dict_get (KPI k) ''Unnamed_KPI''"
    using next_fst [of env api k st] n by simp
  moreover have "map fst ps = map (\<lambda>k. dict_get (KPI k) ''Unnamed_KPI'') ks"
    using Cons.IH [of st1] r by simp
  ultimately show ?case by (simp add: n r)
qed

lemma all_append:
  "get_data_for_all_kpis env api (ks @ ks') st =
     (case get_data_for_all_kpis env api ks st of
        (ps, st1) \<Rightarrow>
          (case get_data_for_all_kpis env api ks' st1 of
             (ps', st2) \<Rightarrow> (ps @ ps', st2)))"
  by (induction ks arbitrary: st) (auto split: prod.splits)

lemma all_length:
  "length (fst (get_data_for_all_kpis env api kpis st)) = length kpis"
  using all_names [of env api kpis st] by (metis length_map)

lemma all_nth:
  assumes "i < length kpis"
  shows "fst (get_data_for_all_kpis env api kpis st) ! i =
     fst (get_data_for_all_kpis_next env api (kpis ! i)
            (snd (get_data_for_all_kpis env api (take i kpis) st)))"
proof -
  let ?G = "get_data_for_all_kpis env api"
  have split: "kpis = take i kpis @ (kpis ! i) # drop (Suc i) kpis"
    using assms by (simp add: id_take_nth_drop)
  obtain ps st1 where a: "?G (take i kpis) st = (ps, st1)"
    by (cases "?G (take i kpis) st")
  have len: "length ps = i"
    using all_length [of env api "take i kpis" st] a assms by simp
  obtain p st2 where b: "get_data_for_all_kpis_next env api (kpis ! i) st1 = (p, st2)"
    by (cases "get_data_for_all_kpis_next env api (kpis ! i) st1")
  obtain ps' st3 where c: "?G (drop (Suc i) kpis) st2 = (ps', st3)"
    by (cases "?G (drop (Suc i) kpis) st2")
  have "?G kpis st = (ps @ p # ps', st3)"
    by (subst split) (simp add: all_append a b c)
  then show ?thesis
    using len by (simp add: a b nth_append)
qed

subsection \<open>C1: one pair per KPI, in order, whatever fails\<close>

text \<open>
  C1, as amended. Run to its end from any state, \<open>get_data_for_all_kpis\<close> yields
  exactly one pair per KPI, at the position of the KPI in the list and with its name
  (\<open>Unnamed_KPI\<close> without one). The pair carries the table when SQL generation and
  execution return, in the state the KPIs before it have left. When either raises, the
  exception is caught and the pair carries \<open>None\<close>, no table at all; the KPIs after
  it are served all the same.
\<close>

theorem get_data_for_all_kpis_pairs:
  assumes "i < length kpis"
  shows "length (fst (get_data_for_all_kpis env api kpis st)) = length kpis \<and>
    fst (fst (get_data_for_all_kpis env api kpis st) ! i) =
      dict_get (KPI (kpis ! i)) ''Unnamed_KPI'' \<and>
    snd (fst (get_data_for_all_kpis env api kpis st) ! i) =
      (case fst (get_data_for_kpi env api (kpis ! i)
                   (snd (get_data_for_all_kpis env api (take i kpis) st))) of
         Inl e \<Rightarrow> None
       | Inr df \<Rightarrow> Some df)"
  using assms by (simp add: all_length all_nth next_fst next_snd)

theorem get_data_for_all_kpis_pairs_witness:
  "length (fst (get_data_for_all_kpis demo_env demo_api
       [demo_kpi ''A'', demo_kpi ''B'', demo_kpi ''C'']
       (demo_state [Inr ''SELECT total_spent FROM main_table'',
          Inr ''SELECT nothing FROM main_table'',
          Inr ''SELECT total_spent FROM main_table'']))) = 3 \<and>
   fst (get_data_for_all_kpis demo_env demo_api
       [demo_kpi ''A'', demo_kpi ''B'', demo_kpi ''C'']
       (demo_state [Inr ''SELECT total_spent FROM main_table'',
          Inr ''SELECT nothing FROM main_table'',
          Inr ''SELECT total_spent FROM main_table''])) ! 1 = (''B'', None) \<and>
   fst (get_data_for_all_kpis demo_env demo_api
       [demo_kpi ''A'', demo_kpi ''B'', demo_kpi ''C'']
       (demo_state [Inr ''SELECT total_spent FROM main_table'',
          Inr ''SELECT nothing FROM main_table'',
          Inr ''SELECT total_spent FROM main_table''])) ! 2 =
     (''C'', Some \<lparr>columns = [''total_spent''], rows = [[120], [80]]\<rparr>)"
  (is "length (fst (get_data_for_all_kpis _ _ ?ks ?st)) = 3 \<and> _")
proof -
  let ?G = "get_data_for_all_kpis demo_env demo_api"
  have l1: "1 < length ?ks" and l2: "2 < length ?ks" by simp_all
  have n1: "dict_get (KPI (?ks ! 1)) ''Unnamed_KPI'' = ''B''"
    and n2: "dict_get (KPI (?ks ! 2)) ''Unnamed_KPI'' = ''C''"
    by code_simp+
  have r1: "(case fst (get_data_for_kpi demo_env demo_api (?ks ! 1) (snd (?G (take 1 ?ks) ?st))) of
               Inl e \<Rightarrow> None | Inr df \<Rightarrow> Some df) = None"
    by code_simp
  have r2: "(case fst (get_data_for_kpi demo_env demo_api (?ks ! 2) (snd (?G (take 2 ?ks) ?st))) of
               Inl e \<Rightarrow> None | Inr df \<Rightarrow> Some df) =
            Some \<lparr>columns = [''total_spent''], rows = [[120], [80]]\<rparr>"
    by code_simp
  from get_data_for_all_kpis_pairs [OF l1, of demo_env demo_api ?st]
  have a: "length (fst (?G ?ks ?st)) = 3" and b: "fst (?G ?ks ?st) ! 1 = (''B'', None)"
    unfolding n1 r1 by (simp_all add: prod_eq_iff)
  from get_data_for_all_kpis_pairs [OF l2, of demo_env demo_api ?st]
  have c: "fst (?G ?ks ?st) ! 2 =
      (''C'', Some \<lparr>columns = [''total_spent''], rows = [[120], [80]]\<rparr>)"
    unfolding n2 r2 by (simp add: prod_eq_iff)
  from a b c show ?thesis by blast
qed

text \<open>
  C1 as the specification words it has the failed KPI carry an empty result table. The
  pair of a KPI whose SQL fails carries \<open>None\<close>, which is not a table.
\<close>

theorem get_data_for_all_kpis_failure_counterexample:
  "fst (get_data_for_all_kpis demo_env demo_api [demo_kpi ''B'']
          (demo_state [Inr ''SELECT nothing FROM main_table''])) = [(''B'', None)]"
  by code_simp

section \<open>Properties of the parsing of model responses\<close>

lemma demo_loads_rejects:
  "json_loads demo_env ''Sure, here are your KPIs'' =
     Inl (JSONDecodeError ''Expecting value: line 1 column 1 (char 0)'')"
  "json_loads demo_env (strip '' a bar chart '') =
     Inl (JSONDecodeError ''Expecting value: line 1 column 1 (char 0)'')"
  "strip '' a bar chart '' = ''a bar chart''"
  by code_simp+

lemma demo_loads_accepts:
  "json_loads demo_env (strip ('' '' @ one_chart_text @ ''\<newline>'')) =
     Inr (JObject [(''chart_type'', JString ''pie'')])"
  "json_loads demo_env (strip two_charts_text) =
     Inr (JArray [JObject [(''chart_type'', JString ''bar'')],
                  JObject [(''chart_type'', JString ''line'')]])"
  by code_simp+

lemma demo_generate_content:
  "generate_content demo_env p (world (demo_state (r # rs))) = (r, rs)"
  by (simp add: demo_env_def demo_state_def scripted_model_def)

subsection \<open>C5: a response that is not JSON\<close>

text \<open>
  C5, as amended. When \<open>json.loads\<close> rejects the text with a \<open>JSONDecodeError\<close>,
  neither parsing step raises. \<open>parse_kpi_json\<close> prints its notice and the raw text
  and returns \<open>None\<close>, changing nothing else. \<open>suggest_chart_types\<close>, whose text is
  the stripped response of the model, prints the error and that text and returns
  \<open>None\<close>; the one call of the model is all that happened besides.
\<close>

theorem malformed_json_is_not_fatal:
  "(json_loads env text = Inl (JSONDecodeError m) \<longrightarrow>
      parse_kpi_json env text st =
        (Inr JNull,
         st\<lparr>stdout := stdout st @
              [''Failed to parse JSON from LLM response.'', ''Raw LLM output: '' @ text]\<rparr>)) \<and>
   (generate_content env (chart_prompt kpi_name kpi_desc insight_summary) (world st) =
      (Inr response_text, w) \<and>
    text = strip response_text \<and>
    json_loads env text = Inl (JSONDecodeError m) \<longrightarrow>
      suggest_chart_types env kpi_name kpi_desc insight_summary st =
        (Inr None,
         st\<lparr>world := w,
            calls := calls st @ [ModelCall (chart_prompt kpi_name kpi_desc insight_summary)],
            stdout := stdout st @
              [''Failed to parse chart suggestion JSON: '' @ m, ''LLM response was: '' @ text]\<rparr>))"
proof (intro conjI impI)
  assume "json_loads env text = Inl (JSONDecodeError m)"
  then show "parse_kpi_json env text st =
      (Inr JNull,
       st\<lparr>stdout := stdout st @
            [''Failed to parse JSON from LLM response.'', ''Raw LLM output: '' @ text]\<rparr>)"
    by (simp add: parse_kpi_json_def print_def)
next
  assume a: "generate_content env (chart_prompt kpi_name kpi_desc insight_summary) (world st) =
      (Inr response_text, w) \<and>
    text = strip response_text \<and>
    json_loads env text = Inl (JSONDecodeError m)"
  then have g: "generate_content env (chart_prompt kpi_name kpi_desc insight_summary) (world st) =
      (Inr response_text, w)"
    and t: "text = strip response_text"
    and j: "json_loads env (strip response_text) = Inl (JSONDecodeError m)"
    by blast+
  show "suggest_chart_types env kpi_name kpi_desc insight_summary st =
      (Inr None,
       st\<lparr>world := w,
          calls := calls st @ [ModelCall (chart_prompt kpi_name kpi_desc insight_summary)],
          stdout := stdout st @
            [''Failed to parse chart suggestion JSON: '' @ m, ''LLM response was: '' @ text]\<rparr>)"
    unfolding t
    by (simp add: suggest_chart_types_def model_generate_content_def print_def Let_def g j)
qed

theorem malformed_json_is_not_fatal_witness:
  "fst (parse_kpi_json demo_env ''Sure, here are your KPIs'' (demo_state [])) = Inr JNull \<and>
   stdout (snd (parse_kpi_json demo_env ''Sure, here are your KPIs'' (demo_state []))) =
     [''Failed to parse JSON from LLM response.'',
      ''Raw LLM output: Sure, here are your KPIs''] \<and>
   fst (suggest_chart_types demo_env ''Total Spent'' ''a sum'' ''It grows.''
          (demo_state [Inr '' a bar chart ''])) = Inr None \<and>
   stdout (snd (suggest_chart_types demo_env ''Total Spent'' ''a sum'' ''It grows.''
          (demo_state [Inr '' a bar chart '']))) =
     [''Failed to parse chart suggestion JSON: Expecting value: line 1 column 1 (char 0)'',
      ''LLM response was: a bar chart'']"
proof -
  note kpi =
    malformed_json_is_not_fatal [of demo_env "''Sure, here are your KPIs''"
      "''Expecting value: line 1 column 1 (char 0)''" "demo_state []",
      THEN conjunct1, rule_format, OF demo_loads_rejects(1)]
  have "generate_content demo_env (chart_prompt ''Total Spent'' ''a sum'' ''It grows.'')
          (world (demo_state [Inr '' a bar chart ''])) = (Inr '' a bar chart '', []) \<and>
        ''a bar chart'' = strip '' a bar chart '' \<and>
        json_loads demo_env ''a bar chart'' =
          Inl (JSONDecodeError ''Expecting value: line 1 column 1 (char 0)'')"
    using demo_loads_rejects by (simp add: demo_generate_content)
  note chart =
    malformed_json_is_not_fatal [of demo_env _ "''Expecting value: line 1 column 1 (char 0)''" _
      "''Total Spent''" "''a sum''" "''It grows.''", THEN conjunct2, rule_format, OF this]
  show ?thesis
    unfolding kpi chart by (simp add: demo_state_def)
qed

text \<open>
  C5 as the specification words it covers every text that is not valid JSON. Both
  steps catch \<open>json.JSONDecodeError\<close> alone: on a text whose decoding ends in
  another exception, the recursion limit or the digit limit of an integer, the exception
  leaves the parsing step.
\<close>

theorem other_decoding_errors_raise_counterexample:
  "fst (parse_kpi_json limits_env (replicate 2000 (CHR ''['')) (demo_state [])) =
     Inl (OtherException
            ''maximum recursion depth exceeded while decoding a JSON array from a unicode string'') \<and>
   fst (suggest_chart_types limits_env ''Total Spent'' ''a sum'' ''It grows.''
          (demo_state [Inr (CHR ''['' # replicate 5000 (CHR ''1''))])) =
     Inl (ValueError
            (''Exceeds the limit (4300 digits) for integer string conversion: '' @
             ''value has 5000 digits; use sys.set_int_max_str_digits() to increase the limit''))"
  by code_simp

subsection \<open>C8: a single object becomes a list of one\<close>

text \<open>
  C8. When the stripped response of the model decodes to a JSON object,
  \<open>suggest_chart_types\<close> returns the list holding that object alone; when it decodes
  to a JSON array, it returns the elements of the array as they are. In both cases
  nothing is raised and nothing is printed.
\<close>

theorem suggest_chart_types_normalises:
  assumes "generate_content env (chart_prompt kpi_name kpi_desc insight_summary) (world st) =
      (Inr response_text, w)"
  shows "(json_loads env (strip response_text) = Inr (JObject d) \<longrightarrow>
      suggest_chart_types env kpi_name kpi_desc insight_summary st =
        (Inr (Some [JObject d]),
         st\<lparr>world := w,
            calls := calls st @ [ModelCall (chart_prompt kpi_name kpi_desc insight_summary)]\<rparr>)) \<and>
   (json_loads env (strip response_text) = Inr (JArray l) \<longrightarrow>
      suggest_chart_types env kpi_name kpi_desc insight_summary st =
        (Inr (Some l),
         st\<lparr>world := w,
            calls := calls st @ [ModelCall (chart_prompt kpi_name kpi_desc insight_summary)]\<rparr>))"
  using assms
  by (simp add: suggest_chart_types_def model_generate_content_def Let_def)

theorem suggest_chart_types_normalises_witness:
  "fst (suggest_chart_types demo_env ''Total Spent'' ''a sum'' ''It grows.''
          (demo_state [Inr ('' '' @ one_chart_text @ ''\<newline>'')])) =
     Inr (Some [JObject [(''chart_type'', JString ''pie'')]]) \<and>
   stdout (snd (suggest_chart_types demo_env ''Total Spent'' ''a sum'' ''It grows.''
          (demo_state [Inr ('' '' @ one_chart_text @ ''\<newline>'')]))) = [] \<and>
   fst (suggest_chart_types demo_env ''Total Spent'' ''a sum'' ''It grows.''
          (demo_state [Inr two_charts_text])) =
     Inr (Some [JObject [(''chart_type'', JString ''bar'')],
                JObject [(''chart_type'', JString ''line'')]])"
proof -
  note one =
    suggest_chart_types_normalises [OF demo_generate_content, THEN conjunct1, rule_format,
      OF demo_loads_accepts(1)]
  note two =
    suggest_chart_types_normalises [OF demo_generate_content, THEN conjunct2, rule_format,
      OF demo_loads_accepts(2)]
  show ?thesis
    unfolding one two by (simp add: demo_state_def)
qed

section \<open>Properties of visualization\<close>

lemma create_visualization_suggestions:
  assumes "suggest_chart_types env kpi_name kpi_desc insight_summary st = (Inr (Some (s # ss)), st1)"
  shows "create_visualization env kpi_name kpi_desc insight_summary kpi_data st =
     generate_plotly_code env kpi_name kpi_desc insight_summary kpi_data st1"
  using assms by (simp add: create_visualization_def Let_def)

subsection \<open>C6: the first chart suggestion and the code generation\<close>

text \<open>
  C6 says that the first chart suggestion drives the generation of the chart code.
  \<open>create_visualization\<close> binds \<open>first_suggestion\<close> and never passes it on. Two runs
  for the same KPI whose suggestions differ, a bar chart before a line chart in one and
  a pie chart in the other, send the same request for code to the model, built from the
  name, the description, the insight and the data sample, and end with the same
  figure.
\<close>

theorem create_visualization_first_suggestion_unused:
  "calls (snd (create_visualization demo_env ''Total Spent'' ''a sum'' ''It grows.''
            \<lparr>columns = [''total_spent''], rows = [[120], [80]]\<rparr>
            (demo_state [Inr two_charts_text, Inr ''fig = 1'']))) =
     [ModelCall (chart_prompt ''Total Spent'' ''a sum'' ''It grows.''),
      ModelCall (plotly_prompt ''Total Spent'' ''a sum'' ''It grows.'' ''[...]''),
      ExecCall ''fig = 1''] \<and>
   calls (snd (create_visualization demo_env ''Total Spent'' ''a sum'' ''It grows.''
            \<lparr>columns = [''total_spent''], rows = [[120], [80]]\<rparr>
            (demo_state [Inr one_chart_text, Inr ''fig = 1'']))) =
     [ModelCall (chart_prompt ''Total Spent'' ''a sum'' ''It grows.''),
      ModelCall (plotly_prompt ''Total Spent'' ''a sum'' ''It grows.'' ''[...]''),
      ExecCall ''fig = 1''] \<and>
   fst (create_visualization demo_env ''Total Spent'' ''a sum'' ''It grows.''
            \<lparr>columns = [''total_spent''], rows = [[120], [80]]\<rparr>
            (demo_state [Inr two_charts_text, Inr ''fig = 1''])) = Inr (Some ''figure'') \<and>
   fst (create_visualization demo_env ''Total Spent'' ''a sum'' ''It grows.''
            \<lparr>columns = [''total_spent''], rows = [[120], [80]]\<rparr>
            (demo_state [Inr one_chart_text, Inr ''fig = 1''])) = Inr (Some ''figure'')"
  by code_simp

section \<open>Properties of insight generation and of the orchestrator\<close>

lemma zero_rows_empty: "rows df = [] \<Longrightarrow> df_empty df"
  by (simp add: df_empty_def)

lemma detect_clusters_update:
  "descriptive_stats (num\<lparr>detect_clusters := f\<rparr>) = descriptive_stats num"
  "categorical_summary (num\<lparr>detect_clusters := f\<rparr>) = categorical_summary num"
  "numeric_columns (num\<lparr>detect_clusters := f\<rparr>) = numeric_columns num"
  "numeric.detect_trends (num\<lparr>detect_clusters := f\<rparr>) = numeric.detect_trends num"
  "correlation_matrix (num\<lparr>detect_clusters := f\<rparr>) = correlation_matrix num"
  "anomaly_detection (num\<lparr>detect_clusters := f\<rparr>) = anomaly_detection num"
  "stats_to_string (num\<lparr>detect_clusters := f\<rparr>) = stats_to_string num"
  "corr_to_string (num\<lparr>detect_clusters := f\<rparr>) = corr_to_string num"
  "format_slope (num\<lparr>detect_clusters := f\<rparr>) = format_slope num"
  "cell_str (num\<lparr>detect_clusters := f\<rparr>) = cell_str num"
  by simp_all

lemma collect_trends_detect_clusters:
  "collect_trends (num\<lparr>detect_clusters := f\<rparr>) dc df cols = collect_trends num dc df cols"
  by (induction cols) (simp_all add: detect_clusters_update)

lemma trend_description_detect_clusters:
  "trend_description (num\<lparr>detect_clusters := f\<rparr>) = trend_description num"
  by (rule ext) (simp add: trend_description_def)

lemma categorical_text_detect_clusters:
  "categorical_text (num\<lparr>detect_clusters := f\<rparr>) = categorical_text num"
  by (rule ext) (simp add: categorical_text_def)

lemma generate_textual_insight_detect_clusters:
  "generate_textual_insight (num\<lparr>detect_clusters := f\<rparr>) = generate_textual_insight num"
  unfolding generate_textual_insight_def detect_clusters_update
    trend_description_detect_clusters categorical_text_detect_clusters ..

lemma collect_trends_detect_clusters_fun:
  "collect_trends (num\<lparr>detect_clusters := f\<rparr>) = collect_trends num"
  by (intro ext) (rule collect_trends_detect_clusters)

lemma generate_insights_detect_clusters:
  "generate_insights_for_kpi (num\<lparr>detect_clusters := f\<rparr>) env dc k df st =
     generate_insights_for_kpi num env dc k df st"
  unfolding generate_insights_for_kpi_def detect_clusters_update
    collect_trends_detect_clusters_fun generate_textual_insight_detect_clusters ..

lemma generate_insights_cases:
  assumes "\<not> df_empty df"
  shows "(\<exists>e. fst (generate_insights_for_kpi num env dc k df st) = failed_insights k e) \<or>
    (map fst (fst (generate_insights_for_kpi num env dc k df st)) =
       [''descriptive_stats'', ''categorical_summary'', ''trends'', ''correlation_matrix'',
        ''anomalies'', ''clusters'', ''summary''] \<and>
     map_of (fst (generate_insights_for_kpi num env dc k df st)) ''clusters'' = Some NoneValue)"
  using assms
  by (auto simp: generate_insights_for_kpi_def Let_def split: sum.splits prod.splits)

subsection \<open>C3: a result table without rows\<close>

text \<open>
  C3, as amended. For a table with zero rows \<open>generate_insights_for_kpi\<close> returns the
  dict whose only key is \<open>summary\<close>, with the text that no data is available; the
  state is the one it was called in, so no model was called, and the result is the same
  for every choice of the numeric routines, so none of them decides anything. In the
  orchestrator the KPI is skipped before that: for a pair with such a table the body of
  the loop prints two lines and leaves the mapping of the dashboard and the record of
  calls as they were. Neither insight generation nor visualization is invoked for the
  KPI, and it gets no entry in the mapping, hence no card.
\<close>

theorem empty_table_is_skipped:
  assumes "rows df = []"
  shows "generate_insights_for_kpi num env dc k df st =
      ([(''summary'',
         Text (''No data available to generate insights for KPI '' @ sq @
               dict_get (KPI k) ''Unknown'' @ sq @ ''.''))], st) \<and>
    main_process_kpi num env dc kpis (kpi_name, Some df) kpi_insights_figures st =
      (Inr kpi_insights_figures,
       st\<lparr>stdout := stdout st @
            [''\<newline>=== Processing KPI: '' @ kpi_name @ '' ==='',
             ''No data available for KPI '' @ sq @ kpi_name @ sq @ ''. Skipping.'']\<rparr>)"
  using zero_rows_empty [OF assms]
  by (simp add: generate_insights_for_kpi_def main_process_kpi_def print_def Let_def)

theorem empty_table_is_skipped_witness:
  "generate_insights_for_kpi demo_numeric demo_env None (demo_kpi ''B'')
      \<lparr>columns = [''total_spent''], rows = []\<rparr> (demo_state []) =
     ([(''summary'',
        Text (''No data available to generate insights for KPI '' @ sq @ ''B'' @ sq @ ''.''))],
      demo_state []) \<and>
   fst (main_process_kpi demo_numeric demo_env None [demo_kpi ''B'']
          (''B'', Some \<lparr>columns = [''total_spent''], rows = []\<rparr>) [] (demo_state [])) = Inr [] \<and>
   calls (snd (main_process_kpi demo_numeric demo_env None [demo_kpi ''B'']
          (''B'', Some \<lparr>columns = [''total_spent''], rows = []\<rparr>) [] (demo_state []))) = []"
proof -
  have r: "rows \<lparr>columns = [''total_spent''], rows = ([] :: int list list)\<rparr> = []"
    by simp
  show ?thesis
    using empty_table_is_skipped [OF r, of demo_numeric demo_env None "demo_kpi ''B''"
        "demo_state []" "[demo_kpi ''B'']" "''B''" "[]"]
    by (simp add: demo_kpi_def dict_get_def demo_state_def)
qed

text \<open>
  C3 as the specification words it has the dashboard show the placeholder text for the
  KPI. Of two KPIs, \<open>A\<close> with two rows and \<open>B\<close> with none, only \<open>A\<close> enters the
  mapping, and the layout built from the mapping has the single card \<open>A\<close>: there is
  no card for \<open>B\<close> that could show a placeholder.
\<close>

theorem empty_table_has_no_card_counterexample:
  "fst (get_data_for_all_kpis demo_env demo_api [demo_kpi ''A'', demo_kpi ''B'']
          (demo_state [Inr ''SELECT total_spent FROM main_table'',
             Inr ''SELECT total_spent FROM main_table WHERE 1 = 0''])) ! 1 =
     (''B'', Some \<lparr>columns = [''total_spent''], rows = []\<rparr>) \<and>
   fst (main_loop demo_numeric demo_env None demo_api [demo_kpi ''A'', demo_kpi ''B'']
          [demo_kpi ''A'', demo_kpi ''B''] []
          (demo_state [Inr ''SELECT total_spent FROM main_table'', Inr '' It grows. '',
             Inr one_chart_text, Inr ''fig = 1'',
             Inr ''SELECT total_spent FROM main_table WHERE 1 = 0''])) =
     Inr [(''A'', ''It grows.'', Some ''figure'')] \<and>
   map card_heading
     (layout_cards
        (build_dashboard_layout demo_env [(''A'', ''It grows.'', Some ''figure'')]
           ''Student Migration KPIs Dashboard'')) = [''A'']"
  by code_simp

subsection \<open>C9: no clustering in the insight bundle\<close>

text \<open>
  C9. For a table that is not empty, \<open>generate_insights_for_kpi\<close> returns either the
  dict of its \<open>except\<close> branch or the full bundle, whose keys are the seven of the
  source and whose entry \<open>clusters\<close> is \<open>None\<close>. The result does not depend on
  \<open>detect_clusters\<close>: whatever that routine would return, it is not asked.
\<close>

theorem clusters_entry_is_none:
  assumes "\<not> df_empty df"
  shows "((\<exists>e. fst (generate_insights_for_kpi num env dc k df st) = failed_insights k e) \<or>
     (map fst (fst (generate_insights_for_kpi num env dc k df st)) =
        [''descriptive_stats'', ''categorical_summary'', ''trends'', ''correlation_matrix'',
         ''anomalies'', ''clusters'', ''summary''] \<and>
      map_of (fst (generate_insights_for_kpi num env dc k df st)) ''clusters'' =
        Some NoneValue)) \<and>
    generate_insights_for_kpi (num\<lparr>detect_clusters := f\<rparr>) env dc k df st =
      generate_insights_for_kpi num env dc k df st"
  using generate_insights_cases [OF assms] generate_insights_detect_clusters by blast

theorem clusters_entry_is_none_witness:
  "map_of (fst (generate_insights_for_kpi demo_numeric demo_env None (demo_kpi ''A'')
            \<lparr>columns = [''total_spent''], rows = [[120], [80]]\<rparr>
            (demo_state [Inr '' It grows. '']))) ''clusters'' = Some NoneValue \<and>
   detect_clusters demo_numeric \<lparr>columns = [''total_spent''], rows = [[120], [80]]\<rparr> 2 =
     Inr (Some [(0, [0]), (1, [1])])"
proof -
  let ?df = "\<lparr>columns = [''total_spent''], rows = [[120 :: int], [80]]\<rparr>"
  let ?G = "generate_insights_for_kpi demo_numeric demo_env None (demo_kpi ''A'') ?df
              (demo_state [Inr '' It grows. ''])"
  have ne: "\<not> df_empty ?df"
    by (simp add: df_empty_def)
  have keys: "map fst (fst ?G) \<noteq> [''summary'']"
    by code_simp
  have no_failure: "\<not> (\<exists>e. fst ?G = failed_insights (demo_kpi ''A'') e)"
  proof
    assume "\<exists>e. fst ?G = failed_insights (demo_kpi ''A'') e"
    then obtain e where "fst ?G = failed_insights (demo_kpi ''A'') e" ..
    then have "map fst (fst ?G) = [''summary'']"
      by (simp add: failed_insights_def)
    with keys show False ..
  qed
  have "map_of (fst ?G) ''clusters'' = Some NoneValue"
    using clusters_entry_is_none [OF ne, of demo_numeric demo_env None "demo_kpi ''A''"
        "demo_state [Inr '' It grows. '']"] no_failure
    by blast
  moreover have "detect_clusters demo_numeric ?df 2 = Inr (Some [(0, [0]), (1, [1])])"
    by (simp add: demo_numeric_def)
  ultimately show ?thesis by simp
qed

section \<open>Properties of trend detection\<close>



subsection \<open>C4: the row guard and the sign of the slope\<close>




end
